theory Spec2Isabelle
  imports Main
begin

section \<open>Strings, messages and exceptions\<close>

text \<open>
  A Python \<open>str\<close> is a sequence of Unicode code points, so a string is a list of code
  points (natural numbers). \<open>lit\<close> turns an ASCII literal into such a list.
\<close>

type_synonym pystr = "nat list"

definition lit :: "string \<Rightarrow> pystr" where
  "lit s = map of_char s"

text \<open>
  The code points that \<open>str.strip()\<close> (no argument) removes: the ones for which
  \<open>str.isspace\<close> holds.
\<close>

definition isspace :: "nat \<Rightarrow> bool" where
  "isspace c =
     ((0x09 \<le> c \<and> c \<le> 0x0D) \<or> (0x1C \<le> c \<and> c \<le> 0x20) \<or> c = 0x85 \<or> c = 0xA0 \<or>
      c = 0x1680 \<or> (0x2000 \<le> c \<and> c \<le> 0x200A) \<or> c = 0x2028 \<or> c = 0x2029 \<or>
      c = 0x202F \<or> c = 0x205F \<or> c = 0x3000)"

definition strip :: "pystr \<Rightarrow> pystr" where
  "strip s = rev (dropWhile isspace (rev (dropWhile isspace s)))"

text \<open>
  The three message classes of \<open>langchain_core.messages\<close> the program builds, each
  with its \<open>content\<close>.
\<close>

datatype message =
    SystemMessage (content: pystr)
  | HumanMessage (content: pystr)
  | AIMessage (content: pystr)

text \<open>
  Exceptions. \<open>HTTPException\<close> is FastAPI's, with its status code and detail; it is a
  subclass of \<open>Exception\<close>. \<open>ValueError\<close> is the one the start-up check raises.
  \<open>PyException\<close> stands for any other exception (the ones the model provider's client
  raises), identified by the text \<open>str(e)\<close> gives for it.
\<close>

datatype exn =
    HTTPException (status_code: nat) (detail: pystr)
  | ValueError pystr
  | PyException pystr

text \<open>
  \<open>str(e)\<close>. What it gives for an \<open>HTTPException\<close> is decided by the web framework,
  not by this program: it is the parameter \<open>http_str\<close>.
\<close>

definition str_exn :: "(nat \<Rightarrow> pystr \<Rightarrow> pystr) \<Rightarrow> exn \<Rightarrow> pystr" where
  "str_exn http_str e =
     (case e of
        HTTPException c d \<Rightarrow> http_str c d
      | ValueError m \<Rightarrow> m
      | PyException m \<Rightarrow> m)"

section \<open>Start-up\<close>

text \<open>Python's \<open>not v\<close> for the value of \<open>os.getenv\<close>: \<open>None\<close> and the empty string are falsy.\<close>

definition py_not :: "pystr option \<Rightarrow> bool" where
  "py_not v = (case v of None \<Rightarrow> True | Some s \<Rightarrow> s = [])"

text \<open>
  The module's top level up to the construction of the client: \<open>environ\<close> is the
  process environment after \<open>load_dotenv()\<close>. A raise at the top level ends the
  process before the application exists; otherwise the key is kept and
  \<open>conversations\<close> starts as the empty dictionary.
\<close>

type_synonym conversations = "pystr \<rightharpoonup> message list"

definition startup :: "(pystr \<rightharpoonup> pystr) \<Rightarrow> exn + (pystr option \<times> conversations)" where
  "startup environ =
     (let google_api_key = environ (lit ''GOOGLE_API_KEY'') in
      if py_not google_api_key
      then Inl (ValueError (lit ''GOOGLE_API_KEY not found in environment variables''))
      else Inr (google_api_key, Map.empty))"

section \<open>Requests, responses and the session store\<close>

datatype ChatRequest = ChatRequest (message: pystr) (session_id: pystr)

datatype ChatResponse = ChatResponse (response: pystr) (response_session_id: pystr)

datatype ClearHistoryRequest = ClearHistoryRequest (clear_session_id: pystr)

definition SYSTEM_PROMPT :: pystr where
  "SYSTEM_PROMPT =
     lit ''You are VerifyBot, the official AI assistant of Verify '' @ [0x2014] @ lit '' a secure AI-powered platform designed to eliminate fake degrees and certificates. '' @ [0x0A] @
     lit ''Verify uses blockchain, AI, and OCR to authenticate both physical and digital certificates issued by verified universities.'' @ [0x0A] @
     [0x0A] @
     lit ''Your goals are to:'' @ [0x0A] @
     lit ''1. Help users understand how to verify certificates on the platform.'' @ [0x0A] @
     lit ''2. Assist universities in uploading databases, issuing new certificates, or integrating blockchain-based QR codes.'' @ [0x0A] @
     lit ''3. Guide verifiers in uploading batches of certificates and checking their authenticity.'' @ [0x0A] @
     lit ''4. Support administrators in managing verified universities, removing fraudulent ones, and monitoring certificate activity.'' @ [0x0A] @
     lit ''5. Explain how the system uses YOLOv11 object detection, image hashing, and OCR (Tesseract) for validating old certificates.'' @ [0x0A] @
     lit ''6. Clearly describe how Ethereum blockchain and MetaMask integration make new e-certificates tamper-proof.'' @ [0x0A] @
     lit ''7. Always maintain a professional, trustworthy, and secure tone.'' @ [0x0A] @
     lit ''8. Politely refuse any request to falsify or alter certificates, and redirect such queries to the proper verification process.'' @ [0x0A] @
     lit ''9. Provide step-by-step help for common tasks like verification, QR scanning, MetaMask connection, or dashboard navigation.'' @ [0x0A] @
     lit ''10. Use concise technical explanations when answering advanced questions from developers or system admins.'' @ [0x0A] @
     [0x0A] @
     lit ''Tech Stack (for context): TypeScript, React, FastAPI, Node.js, AWS, MongoDB, Ethereum blockchain, MetaMask.'' @ [0x0A] @
     [0x0A] @
     lit ''Whenever uncertain, ask clarifying questions before responding. Always emphasize security, authenticity, and transparency.'' @ [0x0A]"

text \<open>
  \<open>conversations\<close> is the module's dictionary from session id to list of messages.
  \<open>get_or_create_history\<close> returns the list stored under the id, after storing a
  fresh one-element list when the id is not a key. The Python returns the stored list
  object itself; the model returns its value together with the dictionary.
\<close>

definition get_or_create_history :: "pystr \<Rightarrow> conversations \<Rightarrow> message list \<times> conversations" where
  "get_or_create_history sid convs =
     (case convs sid of
        None \<Rightarrow> ([SystemMessage SYSTEM_PROMPT], convs(sid \<mapsto> [SystemMessage SYSTEM_PROMPT]))
      | Some history \<Rightarrow> (history, convs))"

section \<open>The handlers\<close>

text \<open>
  The body of the \<open>try\<close> block of \<open>chat\<close>. \<open>llm\<close> is the call \<open>llm.invoke(history)\<close>
  followed by \<open>response.content\<close>: it either raises or gives the reply text.
  \<open>history\<close> is the list stored in the dictionary, so each \<open>append\<close> is an update of
  the entry of the session.
\<close>

definition chat_try :: "(message list \<Rightarrow> exn + pystr) \<Rightarrow> ChatRequest \<Rightarrow> conversations \<Rightarrow>
    (exn + ChatResponse) \<times> conversations" where
  "chat_try llm request convs =
     (if strip (message request) = []
      then (Inl (HTTPException 400 (lit ''Message cannot be empty'')), convs)
      else
        (let (history, convs1) = get_or_create_history (session_id request) convs;
             history1 = history @ [HumanMessage (message request)];
             convs2 = convs1(session_id request \<mapsto> history1)
         in case llm history1 of
              Inl e \<Rightarrow> (Inl e, convs2)
            | Inr bot_message \<Rightarrow>
                (let history2 = history1 @ [AIMessage bot_message];
                     convs3 = convs2(session_id request \<mapsto> history2)
                 in (Inr (ChatResponse bot_message (session_id request)), convs3))))"

text \<open>
  \<open>chat\<close>: the \<open>try\<close> block under its handler \<open>except Exception as e\<close>, which catches
  every exception raised in the block and raises an \<open>HTTPException\<close> with status 500.
  An \<open>Inl (HTTPException c d)\<close> result is the HTTP response with status \<open>c\<close> and
  detail \<open>d\<close>.
\<close>

definition chat :: "(nat \<Rightarrow> pystr \<Rightarrow> pystr) \<Rightarrow> (message list \<Rightarrow> exn + pystr) \<Rightarrow> ChatRequest \<Rightarrow>
    conversations \<Rightarrow> (exn + ChatResponse) \<times> conversations" where
  "chat http_str llm request convs =
     (case chat_try llm request convs of
        (Inl e, convs') \<Rightarrow>
          (Inl (HTTPException 500 (lit ''Error processing message: '' @ str_exn http_str e)), convs')
      | (Inr resp, convs') \<Rightarrow> (Inr resp, convs'))"

text \<open>
  \<open>clear_history\<close>: nothing in its \<open>try\<close> block raises, so the handler never runs.
  The returned dictionary is an association list of its two items.
\<close>

definition clear_history :: "ClearHistoryRequest \<Rightarrow> conversations \<Rightarrow>
    (exn + (pystr \<times> pystr) list) \<times> conversations" where
  "clear_history request convs =
     (let convs' =
        (case convs (clear_session_id request) of
           None \<Rightarrow> convs
         | Some _ \<Rightarrow> convs(clear_session_id request \<mapsto> [SystemMessage SYSTEM_PROMPT]))
      in (Inr [(lit ''message'', lit ''Conversation history cleared''),
               (lit ''session_id'', clear_session_id request)], convs'))"

section \<open>Sequences of operations\<close>

text \<open>
  A state of the store is reachable when a sequence of calls of the two handlers leads
  to it from the empty dictionary. Each send carries the behaviour of the model provider
  during that call.
\<close>

datatype op =
    SendMessage ChatRequest "message list \<Rightarrow> exn + pystr"
  | ClearHistory ClearHistoryRequest

fun step :: "(nat \<Rightarrow> pystr \<Rightarrow> pystr) \<Rightarrow> conversations \<Rightarrow> op \<Rightarrow> conversations" where
  "step http_str convs (SendMessage request llm) = snd (chat http_str llm request convs)"
| "step http_str convs (ClearHistory request) = snd (clear_history request convs)"

definition run :: "(nat \<Rightarrow> pystr \<Rightarrow> pystr) \<Rightarrow> op list \<Rightarrow> conversations" where
  "run http_str ops = foldl (step http_str) Map.empty ops"

text \<open>A stored log starts with the fixed system entry.\<close>

definition starts_with_system :: "message list \<Rightarrow> bool" where
  "starts_with_system history =
     (case history of [] \<Rightarrow> False | m # _ \<Rightarrow> m = SystemMessage SYSTEM_PROMPT)"

definition log_ok :: "message list option \<Rightarrow> bool" where
  "log_ok v = (case v of None \<Rightarrow> True | Some history \<Rightarrow> starts_with_system history)"

section \<open>Auxiliary facts\<close>

lemma strip_empty_iff: "strip s = [] \<longleftrightarrow> list_all isspace s"
proof
  assume "strip s = []"
  then have a: "\<forall>x\<in>set (dropWhile isspace s). isspace x"
    by (simp add: strip_def dropWhile_eq_Nil_conv)
  have "dropWhile isspace s = []"
  proof (rule ccontr)
    assume n: "dropWhile isspace s \<noteq> []"
    then have "\<not> isspace (hd (dropWhile isspace s))"
      by (rule hd_dropWhile)
    moreover have "hd (dropWhile isspace s) \<in> set (dropWhile isspace s)"
      using n by simp
    ultimately show False
      using a by blast
  qed
  then show "list_all isspace s"
    by (simp add: dropWhile_eq_Nil_conv list_all_iff)
next
  assume "list_all isspace s"
  then have "\<forall>x\<in>set s. isspace x"
    by (simp add: list_all_iff)
  then show "strip s = []"
    by (auto simp: strip_def dest: set_dropWhileD)
qed

lemma startup_with_key:
  "environ (lit ''GOOGLE_API_KEY'') = Some (c # key) \<Longrightarrow>
     startup environ = Inr (Some (c # key), Map.empty)"
  by (simp add: startup_def py_not_def)

lemma get_or_create_history_fst:
  "fst (get_or_create_history sid convs) =
     (case convs sid of None \<Rightarrow> [SystemMessage SYSTEM_PROMPT] | Some history \<Rightarrow> history)"
  by (simp add: get_or_create_history_def split: option.split)

lemma get_or_create_history_snd:
  "snd (get_or_create_history sid convs) = convs(sid \<mapsto> fst (get_or_create_history sid convs))"
  by (auto simp: get_or_create_history_def split: option.split)

lemma chat_try_blank:
  "strip (message request) = [] \<Longrightarrow>
     chat_try llm request convs =
       (Inl (HTTPException 400 (lit ''Message cannot be empty'')), convs)"
  by (simp add: chat_try_def)

lemma chat_try_raises:
  assumes "strip (message request) \<noteq> []"
    and "llm (fst (get_or_create_history (session_id request) convs) @
              [HumanMessage (message request)]) = Inl e"
  shows "chat_try llm request convs =
           (Inl e, convs(session_id request \<mapsto>
              fst (get_or_create_history (session_id request) convs) @
              [HumanMessage (message request)]))"
proof -
  obtain h c where gc: "get_or_create_history (session_id request) convs = (h, c)"
    by (cases "get_or_create_history (session_id request) convs")
  have c: "c = convs(session_id request \<mapsto> h)"
    using get_or_create_history_snd [of "session_id request" convs] gc by simp
  show ?thesis
    using assms by (simp add: chat_try_def gc c)
qed

lemma chat_try_replies:
  assumes "strip (message request) \<noteq> []"
    and "llm (fst (get_or_create_history (session_id request) convs) @
              [HumanMessage (message request)]) = Inr bot_message"
  shows "chat_try llm request convs =
           (Inr (ChatResponse bot_message (session_id request)),
            convs(session_id request \<mapsto>
              fst (get_or_create_history (session_id request) convs) @
              [HumanMessage (message request), AIMessage bot_message]))"
proof -
  obtain h c where gc: "get_or_create_history (session_id request) convs = (h, c)"
    by (cases "get_or_create_history (session_id request) convs")
  have c: "c = convs(session_id request \<mapsto> h)"
    using get_or_create_history_snd [of "session_id request" convs] gc by simp
  show ?thesis
    using assms by (simp add: chat_try_def gc c)
qed

text \<open>The store after a send, whatever the provider does.\<close>

lemma chat_store:
  "snd (chat http_str llm request convs) =
     (if strip (message request) = [] then convs
      else convs(session_id request \<mapsto>
             fst (get_or_create_history (session_id request) convs) @
             HumanMessage (message request) #
             (case llm (fst (get_or_create_history (session_id request) convs) @
                        [HumanMessage (message request)]) of
                Inl e \<Rightarrow> [] | Inr bot_message \<Rightarrow> [AIMessage bot_message])))"
proof (cases "strip (message request) = []")
  case True
  then show ?thesis
    by (simp add: chat_def chat_try_blank)
next
  case False
  show ?thesis
  proof (cases "llm (fst (get_or_create_history (session_id request) convs) @
                     [HumanMessage (message request)])")
    case (Inl e)
    with False show ?thesis
      by (simp add: chat_def chat_try_raises)
  next
    case (Inr b)
    with False show ?thesis
      by (simp add: chat_def chat_try_replies)
  qed
qed

lemma clear_history_store:
  "snd (clear_history request convs) =
     (case convs (clear_session_id request) of
        None \<Rightarrow> convs
      | Some history \<Rightarrow> convs(clear_session_id request \<mapsto> [SystemMessage SYSTEM_PROMPT]))"
  by (simp add: clear_history_def)

lemma log_ok_fresh: "log_ok (Some [SystemMessage SYSTEM_PROMPT])"
  by (simp add: log_ok_def starts_with_system_def)

lemma starts_with_system_append:
  "starts_with_system history \<Longrightarrow> starts_with_system (history @ more)"
  by (cases history) (simp_all add: starts_with_system_def)

lemma starts_with_system_get_or_create:
  "log_ok (convs sid) \<Longrightarrow> starts_with_system (fst (get_or_create_history sid convs))"
  by (cases "convs sid")
     (simp_all add: get_or_create_history_fst log_ok_def starts_with_system_def)

lemma log_ok_chat:
  assumes "\<And>s. log_ok (convs s)"
  shows "log_ok (snd (chat http_str llm request convs) s)"
proof (cases "strip (message request) \<noteq> [] \<and> s = session_id request")
  case True
  have "starts_with_system (fst (get_or_create_history (session_id request) convs))"
    using assms by (rule starts_with_system_get_or_create)
  then show ?thesis
    using True by (simp add: chat_store log_ok_def starts_with_system_append)
next
  case False
  then show ?thesis
    using assms [of s] by (auto simp: chat_store)
qed

lemma log_ok_clear_history:
  assumes "\<And>s. log_ok (convs s)"
  shows "log_ok (snd (clear_history request convs) s)"
  using assms [of s] log_ok_fresh
  by (auto simp: clear_history_store split: option.split)

lemma log_ok_step:
  assumes "\<And>s. log_ok (convs s)"
  shows "log_ok (step http_str convs operation s)"
  using assms by (cases operation) (simp_all add: log_ok_chat log_ok_clear_history)

lemma log_ok_foldl:
  "(\<And>s. log_ok (convs s)) \<Longrightarrow> log_ok (foldl (step http_str) convs ops s)"
proof (induction ops arbitrary: convs s)
  case Nil
  then show ?case by simp
next
  case (Cons operation ops)
  show ?case
    using Cons.IH [of "step http_str convs operation" s] Cons.prems
    by (simp add: log_ok_step)
qed

section \<open>Sending a message\<close>

text \<open>
  C1. A send whose message is empty or only whitespace leaves the store as it was, but
  its answer is not status 400: the \<open>HTTPException\<close> with status 400 is raised inside
  the \<open>try\<close> block, the handler \<open>except Exception\<close> catches it, and the answer is
  status 500 with the text of the caught exception in its detail. Shown for the empty
  message and for a message of two spaces, for any store and any provider.
\<close>

theorem chat_blank_message_answers_500:
  "chat http_str llm (ChatRequest [] (lit ''A'')) convs =
     (Inl (HTTPException 500
        (lit ''Error processing message: '' @ http_str 400 (lit ''Message cannot be empty''))),
      convs) \<and>
   chat http_str llm (ChatRequest (lit ''  '') (lit ''A'')) convs =
     (Inl (HTTPException 500
        (lit ''Error processing message: '' @ http_str 400 (lit ''Message cannot be empty''))),
      convs)"
proof -
  have "strip [] = []"
    by (simp add: strip_def)
  moreover have "strip (lit ''  '') = []"
    by (simp add: strip_def lit_def isspace_def)
  ultimately show ?thesis
    by (simp add: chat_def chat_try_blank str_exn_def)
qed

text \<open>
  C2. A send with session id S and a message T that is not all whitespace, during which
  the provider replies: the answer carries the reply and S, and the log of S (the stored
  one, or the one-entry log created for an unseen S) gets exactly two more entries, the
  user entry with T and then the assistant entry with the reply. Its length grows by 2
  and its earlier entries stay as they were; no other key of the store changes.
\<close>

theorem chat_reply_appends_two:
  assumes "\<not> list_all isspace (message request)"
    and "history =
           (case convs (session_id request) of
              None \<Rightarrow> [SystemMessage SYSTEM_PROMPT] | Some stored \<Rightarrow> stored)"
    and "llm (history @ [HumanMessage (message request)]) = Inr reply"
  shows "chat http_str llm request convs =
           (Inr (ChatResponse reply (session_id request)),
            convs(session_id request \<mapsto>
              history @ [HumanMessage (message request), AIMessage reply])) \<and>
         length (history @ [HumanMessage (message request), AIMessage reply]) =
           length history + 2 \<and>
         take (length history) (history @ [HumanMessage (message request), AIMessage reply]) =
           history"
proof -
  have n: "strip (message request) \<noteq> []"
    using assms(1) by (simp add: strip_empty_iff)
  have h: "fst (get_or_create_history (session_id request) convs) = history"
    using assms(2) by (simp add: get_or_create_history_fst)
  have "chat_try llm request convs =
          (Inr (ChatResponse reply (session_id request)),
           convs(session_id request \<mapsto>
             history @ [HumanMessage (message request), AIMessage reply]))"
    using chat_try_replies [OF n, of llm convs reply] assms(3) h by simp
  then show ?thesis
    by (simp add: chat_def)
qed

theorem chat_reply_appends_two_witness:
  "\<not> list_all isspace (lit ''Hello'') \<and>
   chat (\<lambda>c d. d) (\<lambda>h. Inr (lit ''Hi'')) (ChatRequest (lit ''Hello'') (lit ''A''))
        [lit ''A'' \<mapsto> [SystemMessage SYSTEM_PROMPT, HumanMessage (lit ''x''), AIMessage (lit ''y'')]] =
     (Inr (ChatResponse (lit ''Hi'') (lit ''A'')),
      [lit ''A'' \<mapsto> [SystemMessage SYSTEM_PROMPT, HumanMessage (lit ''x''), AIMessage (lit ''y''),
                       HumanMessage (lit ''Hello''), AIMessage (lit ''Hi'')]])"
  using chat_reply_appends_two
    [of "ChatRequest (lit ''Hello'') (lit ''A'')"
        "[SystemMessage SYSTEM_PROMPT, HumanMessage (lit ''x''), AIMessage (lit ''y'')]"
        "[lit ''A'' \<mapsto> [SystemMessage SYSTEM_PROMPT, HumanMessage (lit ''x''), AIMessage (lit ''y'')]]"
        "\<lambda>h. Inr (lit ''Hi'')" "lit ''Hi''" "\<lambda>c d. d"]
  by (simp add: lit_def isspace_def)

text \<open>
  C3. A send with a message that is not all whitespace, during which the provider call
  raises \<open>e\<close>: the answer is status 500 and its detail is
  \<open>Error processing message: \<close> followed by \<open>str(e)\<close>; the log of the session gets
  exactly one more entry, the user entry of this turn, which is its last entry, and no
  assistant entry.
\<close>

theorem chat_provider_failure:
  assumes "\<not> list_all isspace (message request)"
    and "history =
           (case convs (session_id request) of
              None \<Rightarrow> [SystemMessage SYSTEM_PROMPT] | Some stored \<Rightarrow> stored)"
    and "llm (history @ [HumanMessage (message request)]) = Inl e"
  shows "chat http_str llm request convs =
           (Inl (HTTPException 500 (lit ''Error processing message: '' @ str_exn http_str e)),
            convs(session_id request \<mapsto> history @ [HumanMessage (message request)])) \<and>
         length (history @ [HumanMessage (message request)]) = length history + 1 \<and>
         last (history @ [HumanMessage (message request)]) = HumanMessage (message request)"
proof -
  have n: "strip (message request) \<noteq> []"
    using assms(1) by (simp add: strip_empty_iff)
  have h: "fst (get_or_create_history (session_id request) convs) = history"
    using assms(2) by (simp add: get_or_create_history_fst)
  have "chat_try llm request convs =
          (Inl e, convs(session_id request \<mapsto> history @ [HumanMessage (message request)]))"
    using chat_try_raises [OF n, of llm convs e] assms(3) h by simp
  then show ?thesis
    by (simp add: chat_def)
qed

theorem chat_provider_failure_witness:
  "\<not> list_all isspace (lit ''Hello'') \<and>
   chat (\<lambda>c d. d) (\<lambda>h. Inl (PyException (lit ''quota exceeded'')))
        (ChatRequest (lit ''Hello'') (lit ''A'')) Map.empty =
     (Inl (HTTPException 500 (lit ''Error processing message: quota exceeded'')),
      [lit ''A'' \<mapsto> [SystemMessage SYSTEM_PROMPT, HumanMessage (lit ''Hello'')]])"
  using chat_provider_failure
    [of "ChatRequest (lit ''Hello'') (lit ''A'')" "[SystemMessage SYSTEM_PROMPT]" Map.empty
        "\<lambda>h. Inl (PyException (lit ''quota exceeded''))" "PyException (lit ''quota exceeded'')"
        "\<lambda>c d. d"]
  by (simp add: lit_def isspace_def str_exn_def)

section \<open>The session store\<close>

text \<open>
  C4. For a session id that is not a key of the store, \<open>get_or_create_history\<close> returns
  the log whose only entry is the system entry with the fixed instruction text, and
  stores it under the id; a second call with the same id returns the same log and
  leaves the store as the first call left it.
\<close>

theorem get_or_create_history_unseen:
  assumes "convs sid = None"
  shows "get_or_create_history sid convs =
           ([SystemMessage SYSTEM_PROMPT], convs(sid \<mapsto> [SystemMessage SYSTEM_PROMPT])) \<and>
         get_or_create_history sid (snd (get_or_create_history sid convs)) =
           ([SystemMessage SYSTEM_PROMPT], snd (get_or_create_history sid convs))"
  using assms by (simp add: get_or_create_history_def)

theorem get_or_create_history_unseen_witness:
  "[lit ''B'' \<mapsto> [SystemMessage SYSTEM_PROMPT, HumanMessage (lit ''x'')]] (lit ''A'') = None \<and>
   get_or_create_history (lit ''A'')
       [lit ''B'' \<mapsto> [SystemMessage SYSTEM_PROMPT, HumanMessage (lit ''x'')]] =
     ([SystemMessage SYSTEM_PROMPT],
      [lit ''B'' \<mapsto> [SystemMessage SYSTEM_PROMPT, HumanMessage (lit ''x'')],
       lit ''A'' \<mapsto> [SystemMessage SYSTEM_PROMPT]])"
  using get_or_create_history_unseen
    [of "[lit ''B'' \<mapsto> [SystemMessage SYSTEM_PROMPT, HumanMessage (lit ''x'')]]" "lit ''A''"]
  by (simp add: lit_def)

text \<open>
  C5. Clearing the history of a session id that is a key of the store, whatever the
  length of its log, replaces the log by the one-entry log of the system entry, and
  answers with a confirmation whose \<open>session_id\<close> is the id of the request.
\<close>

theorem clear_history_present:
  assumes "convs (clear_session_id request) = Some history"
  shows "clear_history request convs =
           (Inr [(lit ''message'', lit ''Conversation history cleared''),
                 (lit ''session_id'', clear_session_id request)],
            convs(clear_session_id request \<mapsto> [SystemMessage SYSTEM_PROMPT])) \<and>
         map_of [(lit ''message'', lit ''Conversation history cleared''),
                 (lit ''session_id'', clear_session_id request)] (lit ''session_id'') =
           Some (clear_session_id request)"
  using assms by (simp add: clear_history_def lit_def)

theorem clear_history_present_witness:
  "clear_history (ClearHistoryRequest (lit ''A''))
       [lit ''A'' \<mapsto> [SystemMessage SYSTEM_PROMPT, HumanMessage (lit ''x''), AIMessage (lit ''y'')]] =
     (Inr [(lit ''message'', lit ''Conversation history cleared''),
           (lit ''session_id'', lit ''A'')],
      [lit ''A'' \<mapsto> [SystemMessage SYSTEM_PROMPT]])"
  using clear_history_present
    [of "[lit ''A'' \<mapsto> [SystemMessage SYSTEM_PROMPT, HumanMessage (lit ''x''), AIMessage (lit ''y'')]]"
        "ClearHistoryRequest (lit ''A'')"
        "[SystemMessage SYSTEM_PROMPT, HumanMessage (lit ''x''), AIMessage (lit ''y'')]"]
  by simp

text \<open>
  C8. Clearing the history of a session id that is not a key of the store succeeds,
  leaves the store exactly as it was (the id is still not a key), and answers with a
  confirmation whose \<open>session_id\<close> is the id of the request.
\<close>

theorem clear_history_absent:
  assumes "convs (clear_session_id request) = None"
  shows "clear_history request convs =
           (Inr [(lit ''message'', lit ''Conversation history cleared''),
                 (lit ''session_id'', clear_session_id request)], convs) \<and>
         snd (clear_history request convs) (clear_session_id request) = None \<and>
         map_of [(lit ''message'', lit ''Conversation history cleared''),
                 (lit ''session_id'', clear_session_id request)] (lit ''session_id'') =
           Some (clear_session_id request)"
  using assms by (simp add: clear_history_def lit_def)

theorem clear_history_absent_witness:
  "[lit ''B'' \<mapsto> [SystemMessage SYSTEM_PROMPT, HumanMessage (lit ''x'')]] (lit ''A'') = None \<and>
   clear_history (ClearHistoryRequest (lit ''A''))
       [lit ''B'' \<mapsto> [SystemMessage SYSTEM_PROMPT, HumanMessage (lit ''x'')]] =
     (Inr [(lit ''message'', lit ''Conversation history cleared''),
           (lit ''session_id'', lit ''A'')],
      [lit ''B'' \<mapsto> [SystemMessage SYSTEM_PROMPT, HumanMessage (lit ''x'')]])"
  using clear_history_absent
    [of "[lit ''B'' \<mapsto> [SystemMessage SYSTEM_PROMPT, HumanMessage (lit ''x'')]]"
        "ClearHistoryRequest (lit ''A'')"]
  by (simp add: lit_def)

section \<open>Invariant and frame\<close>

text \<open>
  C6. In every state of the store reached from the empty dictionary by a sequence of
  sends and clears, with any behaviour of the provider, every stored log is non-empty and
  its first entry is the system entry with the fixed instruction text; and each single
  operation keeps this true of every stored log when it was true before.
\<close>

theorem system_entry_first_invariant:
  "log_ok (run http_str ops sid) \<and>
   ((\<forall>s. log_ok (convs s)) \<longrightarrow> log_ok (step http_str convs operation sid))"
proof
  have "\<And>s. log_ok ((Map.empty :: conversations) s)"
    by (simp add: log_ok_def)
  then show "log_ok (run http_str ops sid)"
    unfolding run_def by (rule log_ok_foldl)
next
  show "(\<forall>s. log_ok (convs s)) \<longrightarrow> log_ok (step http_str convs operation sid)"
    by (simp add: log_ok_step)
qed

theorem system_entry_first_invariant_witness:
  "log_ok (run (\<lambda>c d. d)
      [SendMessage (ChatRequest (lit ''Hello'') (lit ''A'')) (\<lambda>h. Inr (lit ''Hi'')),
       ClearHistory (ClearHistoryRequest (lit ''A'')),
       SendMessage (ChatRequest (lit ''Again'') (lit ''A'')) (\<lambda>h. Inl (PyException (lit ''down'')))]
      (lit ''A'')) \<and>
   run (\<lambda>c d. d)
      [SendMessage (ChatRequest (lit ''Hello'') (lit ''A'')) (\<lambda>h. Inr (lit ''Hi'')),
       ClearHistory (ClearHistoryRequest (lit ''A'')),
       SendMessage (ChatRequest (lit ''Again'') (lit ''A'')) (\<lambda>h. Inl (PyException (lit ''down'')))]
      (lit ''A'') =
     Some [SystemMessage SYSTEM_PROMPT, HumanMessage (lit ''Again'')]"
proof (rule conjI)
  show "log_ok (run (\<lambda>c d. d)
      [SendMessage (ChatRequest (lit ''Hello'') (lit ''A'')) (\<lambda>h. Inr (lit ''Hi'')),
       ClearHistory (ClearHistoryRequest (lit ''A'')),
       SendMessage (ChatRequest (lit ''Again'') (lit ''A'')) (\<lambda>h. Inl (PyException (lit ''down'')))]
      (lit ''A''))"
    by (rule system_entry_first_invariant [THEN conjunct1])
next
  have a: "strip (lit ''Hello'') \<noteq> []" and b: "strip (lit ''Again'') \<noteq> []"
    by (simp_all add: strip_empty_iff lit_def isspace_def)
  show "run (\<lambda>c d. d)
      [SendMessage (ChatRequest (lit ''Hello'') (lit ''A'')) (\<lambda>h. Inr (lit ''Hi'')),
       ClearHistory (ClearHistoryRequest (lit ''A'')),
       SendMessage (ChatRequest (lit ''Again'') (lit ''A'')) (\<lambda>h. Inl (PyException (lit ''down'')))]
      (lit ''A'') =
     Some [SystemMessage SYSTEM_PROMPT, HumanMessage (lit ''Again'')]"
    using a b
    by (simp add: run_def chat_def chat_try_def get_or_create_history_def clear_history_def)
qed

text \<open>
  C7. A send or a clear for session id S leaves the entry of every other session id as
  it was: a stored log stays the same log, and an id that is not a key stays not a key.
\<close>

theorem other_sessions_unchanged:
  assumes "other \<noteq> sid"
  shows "snd (chat http_str llm (ChatRequest text sid) convs) other = convs other \<and>
         snd (clear_history (ClearHistoryRequest sid) convs) other = convs other"
  using assms by (simp add: chat_store clear_history_store split: option.split)

theorem other_sessions_unchanged_witness:
  "lit ''B'' \<noteq> lit ''A'' \<and>
   snd (chat (\<lambda>c d. d) (\<lambda>h. Inr (lit ''Hi'')) (ChatRequest (lit ''Hello'') (lit ''A''))
          [lit ''A'' \<mapsto> [SystemMessage SYSTEM_PROMPT],
           lit ''B'' \<mapsto> [SystemMessage SYSTEM_PROMPT, HumanMessage (lit ''x'')]]) (lit ''B'') =
     Some [SystemMessage SYSTEM_PROMPT, HumanMessage (lit ''x'')] \<and>
   snd (clear_history (ClearHistoryRequest (lit ''A''))
          [lit ''A'' \<mapsto> [SystemMessage SYSTEM_PROMPT],
           lit ''B'' \<mapsto> [SystemMessage SYSTEM_PROMPT, HumanMessage (lit ''x'')]]) (lit ''B'') =
     Some [SystemMessage SYSTEM_PROMPT, HumanMessage (lit ''x'')]"
  using other_sessions_unchanged
    [of "lit ''B''" "lit ''A''" "\<lambda>c d. d" "\<lambda>h. Inr (lit ''Hi'')" "lit ''Hello''"
        "[lit ''A'' \<mapsto> [SystemMessage SYSTEM_PROMPT],
          lit ''B'' \<mapsto> [SystemMessage SYSTEM_PROMPT, HumanMessage (lit ''x'')]]"]
  by (simp add: lit_def)

text \<open>
  C10. A send whose message is empty or only whitespace, for a session id that is not a
  key of the store, is rejected before the store is touched: the store after it is the
  store before it, the id is still not a key, and the set of keys is the same.
\<close>

theorem chat_blank_creates_no_log:
  assumes "list_all isspace (message request)"
    and "convs (session_id request) = None"
  shows "snd (chat http_str llm request convs) = convs \<and>
         snd (chat http_str llm request convs) (session_id request) = None \<and>
         dom (snd (chat http_str llm request convs)) = dom convs"
proof -
  have "strip (message request) = []"
    using assms(1) by (simp add: strip_empty_iff)
  then have "snd (chat http_str llm request convs) = convs"
    by (simp add: chat_store)
  then show ?thesis
    using assms(2) by simp
qed

theorem chat_blank_creates_no_log_witness:
  "list_all isspace (lit '' '' @ [0x0A, 0x09, 0x3000]) \<and>
   snd (chat (\<lambda>c d. d) (\<lambda>h. Inr (lit ''Hi''))
          (ChatRequest (lit '' '' @ [0x0A, 0x09, 0x3000]) (lit ''A''))
          [lit ''B'' \<mapsto> [SystemMessage SYSTEM_PROMPT]]) =
     [lit ''B'' \<mapsto> [SystemMessage SYSTEM_PROMPT]] \<and>
   dom (snd (chat (\<lambda>c d. d) (\<lambda>h. Inr (lit ''Hi''))
          (ChatRequest (lit '' '' @ [0x0A, 0x09, 0x3000]) (lit ''A''))
          [lit ''B'' \<mapsto> [SystemMessage SYSTEM_PROMPT]])) = {lit ''B''}"
  using chat_blank_creates_no_log
    [of "ChatRequest (lit '' '' @ [0x0A, 0x09, 0x3000]) (lit ''A'')"
        "[lit ''B'' \<mapsto> [SystemMessage SYSTEM_PROMPT]]" "\<lambda>c d. d" "\<lambda>h. Inr (lit ''Hi'')"]
  by (simp add: lit_def isspace_def)

section \<open>Start-up check\<close>

text \<open>
  C9. When the environment has no \<open>GOOGLE_API_KEY\<close>, start-up ends with the
  \<open>ValueError\<close> raised at the top level of the module, so the application never
  exists; a \<open>GOOGLE_API_KEY\<close> that is set to the empty string ends in the same way,
  since the test is \<open>not google_api_key\<close>.
\<close>

theorem startup_without_key:
  assumes "environ (lit ''GOOGLE_API_KEY'') = None \<or> environ (lit ''GOOGLE_API_KEY'') = Some []"
  shows "startup environ =
           Inl (ValueError (lit ''GOOGLE_API_KEY not found in environment variables''))"
  using assms by (auto simp: startup_def py_not_def)

theorem startup_without_key_witness:
  "startup Map.empty =
     Inl (ValueError (lit ''GOOGLE_API_KEY not found in environment variables'')) \<and>
   startup [lit ''GOOGLE_API_KEY'' \<mapsto> []] =
     Inl (ValueError (lit ''GOOGLE_API_KEY not found in environment variables''))"
  using startup_without_key [of Map.empty]
    startup_without_key [of "[lit ''GOOGLE_API_KEY'' \<mapsto> []]"]
  by simp

end
